theory Spec2Isabelle
  imports Main
begin

section \<open>JavaScript values and strings\<close>

text \<open>
  Fields of a JSON request body that the server never validates (hosts, ports) are
  JavaScript values: absent (\<open>undefined\<close>), \<open>null\<close>, a boolean, a number (JSON has no
  NaN; the ports that matter are integers) or a string. The values of a JSON response are
  of the same kind. \<open>truthy\<close> is the coercion applied by \<open>!x\<close> and by \<open>x ? a : b\<close>;
  equality of two \<open>jsval\<close>s is \<open>===\<close>. Every exception the modelled code can raise is a
  \<open>TypeError\<close> from reading a property of \<open>undefined\<close>.
\<close>

datatype jsval = JUndefined | JNull | JBool bool | JNum int | JStr string

fun truthy :: "jsval \<Rightarrow> bool" where
  "truthy JUndefined = False"
| "truthy JNull = False"
| "truthy (JBool b) = b"
| "truthy (JNum n) = (n \<noteq> 0)"
| "truthy (JStr s) = (s \<noteq> [])"

datatype jserror = TypeError

text \<open>\<open>s.split(c)\<close> for a one-character separator: the pieces between occurrences.\<close>

fun split :: "char \<Rightarrow> string \<Rightarrow> string list" where
  "split c [] = [[]]"
| "split c (x # xs) =
     (if x = c then [] # split c xs
      else (case split c xs of [] \<Rightarrow> [[x]] | y # ys \<Rightarrow> (x # y) # ys))"

text \<open>\<open>a[i]\<close> on an array: \<open>undefined\<close> (here \<open>None\<close>) out of range.\<close>

fun index :: "'a list \<Rightarrow> nat \<Rightarrow> 'a option" where
  "index [] i = None"
| "index (x # xs) 0 = Some x"
| "index (x # xs) (Suc i) = index xs i"

text \<open>
  \<open>toLowerCase\<close> on the characters a HOL string has: the letters A to Z are mapped to
  a to z, every other character is kept. JavaScript lowers every cased letter; the two
  agree on ASCII text, which the hosts of \<open>config.PROVIDERS\<close> are.
\<close>

definition lowerChar :: "char \<Rightarrow> char" where
  "lowerChar c =
     (let n = (of_char c :: nat) in if 65 \<le> n \<and> n \<le> 90 then char_of (n + 32) else c)"

definition toLowerCase :: "string \<Rightarrow> string" where
  "toLowerCase s = map lowerChar s"

fun startsWith :: "string \<Rightarrow> string \<Rightarrow> bool" where
  "startsWith s [] = True"
| "startsWith [] (y # ys) = False"
| "startsWith (x # xs) (y # ys) = (x = y \<and> startsWith xs ys)"

text \<open>\<open>s.includes(t)\<close>: \<open>t\<close> occurs in \<open>s\<close> as a contiguous substring.\<close>

fun includesStr :: "string \<Rightarrow> string \<Rightarrow> bool" where
  "includesStr [] t = (t = [])"
| "includesStr (x # xs) t = (startsWith (x # xs) t \<or> includesStr xs t)"

section \<open>The provider directory (config.PROVIDERS)\<close>

record endpoint =
  host :: string
  port :: int
  secure :: bool

record profile =
  profileName :: string
  imap :: "endpoint option"
  pop3 :: "endpoint option"
  smtp :: "endpoint option"
  requiresAppPassword :: bool
  authURL :: "string option"

text \<open>An object literal with string keys, in the order \<open>Object.keys\<close> lists them.\<close>

type_synonym providers = "(string \<times> profile) list"

definition PROVIDERS :: providers where
  "PROVIDERS =
    [(''gmail'', \<lparr>profileName = ''Gmail'',
        imap = Some \<lparr>host = ''imap.gmail.com'', port = 993, secure = True\<rparr>,
        pop3 = Some \<lparr>host = ''pop.gmail.com'', port = 995, secure = True\<rparr>,
        smtp = Some \<lparr>host = ''smtp.gmail.com'', port = 587, secure = False\<rparr>,
        requiresAppPassword = True,
        authURL = Some ''https://myaccount.google.com/apppasswords''\<rparr>),
     (''outlook'', \<lparr>profileName = ''Outlook/Hotmail'',
        imap = Some \<lparr>host = ''outlook.office365.com'', port = 993, secure = True\<rparr>,
        pop3 = Some \<lparr>host = ''outlook.office365.com'', port = 995, secure = True\<rparr>,
        smtp = Some \<lparr>host = ''smtp-mail.outlook.com'', port = 587, secure = False\<rparr>,
        requiresAppPassword = True,
        authURL = Some ''https://account.microsoft.com/security/app-passwords''\<rparr>),
     (''yandex'', \<lparr>profileName = ''Yandex'',
        imap = Some \<lparr>host = ''imap.yandex.ru'', port = 993, secure = True\<rparr>,
        pop3 = Some \<lparr>host = ''pop.yandex.ru'', port = 995, secure = True\<rparr>,
        smtp = Some \<lparr>host = ''smtp.yandex.ru'', port = 587, secure = False\<rparr>,
        requiresAppPassword = True,
        authURL = Some ''https://passport.yandex.ru/profile/app-passwords''\<rparr>),
     (''yahoo'', \<lparr>profileName = ''Yahoo'',
        imap = Some \<lparr>host = ''imap.mail.yahoo.com'', port = 993, secure = True\<rparr>,
        pop3 = Some \<lparr>host = ''pop.mail.yahoo.com'', port = 995, secure = True\<rparr>,
        smtp = Some \<lparr>host = ''smtp.mail.yahoo.com'', port = 587, secure = False\<rparr>,
        requiresAppPassword = True,
        authURL = Some ''https://login.yahoo.com/account/security/app-passwords''\<rparr>),
     (''custom'', \<lparr>profileName = ''Custom Server'',
        imap = None, pop3 = None, smtp = None,
        requiresAppPassword = False,
        authURL = None\<rparr>)]"

section \<open>emailProviders.js\<close>

text \<open>
  The predicate of the \<open>find\<close> callback:
  \<open>(provider.imap && provider.imap.host.includes(domain)) ||
   (provider.pop3 && provider.pop3.host.includes(domain))\<close>.
\<close>

definition hostMatches :: "endpoint option \<Rightarrow> string \<Rightarrow> bool" where
  "hostMatches ep domain = (case ep of None \<Rightarrow> False | Some e \<Rightarrow> includesStr (host e) domain)"

definition providerMatches :: "profile \<Rightarrow> string \<Rightarrow> bool" where
  "providerMatches provider domain =
     (hostMatches (imap provider) domain \<or> hostMatches (pop3 provider) domain)"

text \<open>\<open>Object.keys(providers).find(key => ...)\<close>: the first key whose profile matches.\<close>

fun findKey :: "providers \<Rightarrow> providers \<Rightarrow> string \<Rightarrow> string option" where
  "findKey providers [] domain = None"
| "findKey providers ((key, _) # rest) domain =
     (case map_of providers key of
        Some provider \<Rightarrow>
          if providerMatches provider domain then Some key else findKey providers rest domain
      | None \<Rightarrow> findKey providers rest domain)"

text \<open>
  \<open>getProviderSettings(email)\<close>. \<open>email.split('@')[1]\<close> is \<open>undefined\<close> when the
  address has no \<open>@\<close>, and \<open>.toLowerCase()\<close> on it raises a TypeError. A key that is
  the empty string is falsy, so \<open>if (providerKey)\<close> sends it to \<open>return null\<close>
  (\<open>Inr None\<close>).
\<close>

definition getProviderSettings :: "providers \<Rightarrow> string \<Rightarrow> jserror + profile option" where
  "getProviderSettings providers email =
     (case index (split CHR ''@'' email) 1 of
        None \<Rightarrow> Inl TypeError
      | Some d \<Rightarrow>
          (let domain = toLowerCase d in
           case findKey providers providers domain of
             None \<Rightarrow> Inr None
           | Some providerKey \<Rightarrow>
               if providerKey \<noteq> [] then Inr (map_of providers providerKey) else Inr None))"

section \<open>emailUtils.js: promises, parsed mail, display texts\<close>

text \<open>
  A promise is pending until the first \<open>resolve\<close> or \<open>reject\<close>; later calls of either
  change nothing. A rejection carries the error's message.
\<close>

datatype 'a promise = Pending | Resolved 'a | Rejected string

fun settle :: "'a promise \<Rightarrow> 'a promise \<Rightarrow> 'a promise" where
  "settle Pending r = r"
| "settle p r = p"

text \<open>
  The Russian display texts of the source, written in Latin letters:
  \<open>UNKNOWN\<close> is the sender, recipient and date placeholder, \<open>NO_SUBJECT\<close> the subject
  placeholder, \<open>LOG_RETR\<close> and \<open>LOG_PARSE\<close> the prefixes of the two logger messages.
\<close>

definition UNKNOWN :: string where "UNKNOWN = ''Neizvestno''"
definition NO_SUBJECT :: string where "NO_SUBJECT = ''Bez temy''"
definition LOG_RETR :: string where "LOG_RETR = ''Oshibka POP3 RETR: ''"
definition LOG_PARSE :: string where "LOG_PARSE = ''Oshibka razbora pisma: ''"

text \<open>
  What \<open>simpleParser\<close> hands to its callback, as far as the code reads it:
  \<open>parsed.from.text\<close> and \<open>parsed.to.text\<close> when the address objects exist, the subject,
  the date as an instant (milliseconds), and the two bodies.
\<close>

record parsedMail =
  p_from :: "string option"
  p_to :: "string option"
  p_subject :: "string option"
  p_date :: "int option"
  p_html :: "string option"
  p_text :: "string option"

text \<open>
  The \<open>date\<close> field of a message summary: \<open>DateShown t\<close> stands for the text
  \<open>new Date(t).toLocaleString('ru-RU')\<close>, \<open>DateUnknown\<close> for the placeholder.
\<close>

datatype dateField = DateShown int | DateUnknown

definition fromText :: "string option \<Rightarrow> string" where
  "fromText a = (case a of Some t \<Rightarrow> t | None \<Rightarrow> UNKNOWN)"

definition subjectText :: "string option \<Rightarrow> string" where
  "subjectText s = (case s of Some t \<Rightarrow> if t \<noteq> [] then t else NO_SUBJECT | None \<Rightarrow> NO_SUBJECT)"

definition dateText :: "int option \<Rightarrow> dateField" where
  "dateText d = (case d of Some t \<Rightarrow> DateShown t | None \<Rightarrow> DateUnknown)"

definition bodyText :: "parsedMail \<Rightarrow> string option" where
  "bodyText parsed =
     (case p_html parsed of
        Some h \<Rightarrow> if h \<noteq> [] then Some h else p_text parsed
      | None \<Rightarrow> p_text parsed)"

section \<open>emailUtils.js: the SMTP adapters\<close>

record smtpOptions =
  o_host :: jsval
  o_port :: jsval
  o_secure :: bool
  o_user :: string
  o_pass :: string
  o_rejectUnauthorized :: bool

record smtpArgs =
  s_email :: string
  s_password :: string
  smtpHost :: jsval
  smtpPort :: jsval

text \<open>
  What a library hands to the callback it was given: \<open>Never\<close> when it does not call it.
\<close>

datatype 'a callback = Never | Called 'a

text \<open>
  \<open>testSmtpConnection\<close>: the object given to \<open>nodemailer.createTransport\<close>, and the
  promise. \<open>verify\<close> is the mail server as \<open>transporter.verify\<close> sees it: the error it
  reports for a transport, if any. \<open>production\<close> is \<open>config.HTTPS.rejectUnauthorized\<close>.
\<close>

definition testSmtpConnection ::
  "bool \<Rightarrow> (smtpOptions \<Rightarrow> string option callback) \<Rightarrow> smtpArgs
   \<Rightarrow> smtpOptions \<times> bool promise" where
  "testSmtpConnection production verify a =
     (let transporter =
            \<lparr>o_host = smtpHost a, o_port = smtpPort a, o_secure = (smtpPort a = JNum 465),
             o_user = s_email a, o_pass = s_password a, o_rejectUnauthorized = production\<rparr>
      in (transporter,
          case verify transporter of
            Never \<Rightarrow> Pending
          | Called (Some error) \<Rightarrow> Rejected error
          | Called None \<Rightarrow> Resolved True))"

record mailOptions =
  m_from :: string
  m_to :: string
  m_subject :: string
  m_text :: string
  m_html :: string

text \<open>\<open>text.replace(/\n/g, '<br>')\<close>.\<close>

definition nl2br :: "string \<Rightarrow> string" where
  "nl2br t = concat (map (\<lambda>c. if c = CHR 0x0A then ''<br>'' else [c]) t)"

text \<open>
  \<open>sendEmail\<close>: the object given to \<open>createTransport\<close>, and the promise; \<open>s_email\<close> is
  the argument \<open>from\<close>.
\<close>

definition sendEmail ::
  "bool \<Rightarrow> (smtpOptions \<Rightarrow> mailOptions \<Rightarrow> (string + 'i) callback) \<Rightarrow> smtpArgs \<Rightarrow>
   string \<Rightarrow> string \<Rightarrow> string \<Rightarrow> smtpOptions \<times> 'i promise" where
  "sendEmail production sendMail a to subject text =
     (let transporter =
            \<lparr>o_host = smtpHost a, o_port = smtpPort a, o_secure = (smtpPort a = JNum 465),
             o_user = s_email a, o_pass = s_password a, o_rejectUnauthorized = production\<rparr>;
          mailOptions =
            \<lparr>m_from = s_email a, m_to = to, m_subject = subject, m_text = text,
             m_html = nl2br text\<rparr>
      in (transporter,
          case sendMail transporter mailOptions of
            Never \<Rightarrow> Pending
          | Called (Inl error) \<Rightarrow> Rejected error
          | Called (Inr info) \<Rightarrow> Resolved info))"

section \<open>emailUtils.js: the folder tree flattener\<close>

text \<open>
  A mailbox of the hierarchy \<open>getBoxes\<close> returns: its delimiter (\<open>null\<close> is \<open>None\<close>) and
  its children (\<open>null\<close> is \<open>None\<close>). A level of the hierarchy is an object; its entries
  are listed in the order \<open>for (const name in boxes)\<close> visits them.
\<close>

datatype box = Box (delimiter: "string option") (children: "(string \<times> box) list option")

type_synonym boxes = "(string \<times> box) list"

record folder =
  f_name :: string
  f_delimiter :: "string option"
  f_children :: "boxes option"

text \<open>\<open>fullName + delimiter\<close>: a \<open>null\<close> delimiter is appended as the text \<open>null\<close>.\<close>

definition plusDelimiter :: "string \<Rightarrow> string option \<Rightarrow> string" where
  "plusDelimiter s d = s @ (case d of None \<Rightarrow> ''null'' | Some t \<Rightarrow> t)"

fun extractFolderNames :: "boxes \<Rightarrow> string \<Rightarrow> folder list" where
  "extractFolderNames [] prefix = []"
| "extractFolderNames ((name, Box d c) # rest) prefix =
     (let fullName = prefix @ name in
      \<lparr>f_name = fullName, f_delimiter = d, f_children = c\<rparr> #
      (case c of
         None \<Rightarrow> []
       | Some ch \<Rightarrow> extractFolderNames ch (plusDelimiter fullName d)) @
      extractFolderNames rest prefix)"

section \<open>emailUtils.js: the IMAP adapters\<close>

text \<open>
  An adapter creates a connection, registers its handlers, calls \<open>connect()\<close> and returns
  a promise. From then on it only reacts: to the events of the connection and to the
  callbacks of the commands it has issued. The model of an adapter is its reaction,
  \<open>step\<close>, to one such event, on a state that holds the commands issued so far (in
  order), whether the \<open>once\<close> handlers are still registered, and the promise. A run of the
  adapter is the fold of \<open>step\<close> over what the library delivers.
\<close>

datatype imapEvent =
    Ready
  | Error string
  | OpenBoxDone "string + int"
  | AddFlagsDone "string option"
  | GetBoxesDone "string + boxes"
  | Message nat
  | BodyParsed nat "string + parsedMail"
  | Attributes nat "string list" int
  | FetchError string
  | FetchEnd

datatype imapCall =
    Connect jsval jsval
  | End
  | OpenBox string bool
  | AddFlags "int list" string
  | GetBoxes
  | SeqFetch int int

record imapArgs =
  i_email :: string
  i_password :: string
  imapHost :: jsval
  imapPort :: jsval

record 'a conn =
  calls :: "imapCall list"
  onReady :: bool
  onError :: bool
  promise :: "'a promise"

definition connect :: "imapArgs \<Rightarrow> 'a conn" where
  "connect a =
     \<lparr>calls = [Connect (imapHost a) (imapPort a)], onReady = True, onError = True,
      promise = Pending\<rparr>"

text \<open>\<open>testImapConnection\<close>: lines 26 to 33.\<close>

fun testImapStep :: "bool conn \<Rightarrow> imapEvent \<Rightarrow> bool conn" where
  "testImapStep st Ready =
     (if onReady st
      then st\<lparr>onReady := False, calls := calls st @ [End],
              promise := settle (promise st) (Resolved True)\<rparr>
      else st)"
| "testImapStep st (Error err) =
     (if onError st
      then st\<lparr>onError := False, promise := settle (promise st) (Rejected err)\<rparr>
      else st)"
| "testImapStep st _ = st"

definition testImapConnection :: "imapArgs \<Rightarrow> imapEvent list \<Rightarrow> bool conn" where
  "testImapConnection a events = foldl testImapStep (connect a) events"

text \<open>\<open>markAsRead\<close>: lines 293 to 314.\<close>

definition SEEN :: string where "SEEN = [CHR 0x5C] @ ''Seen''"

fun markAsReadStep :: "int list \<Rightarrow> bool conn \<Rightarrow> imapEvent \<Rightarrow> bool conn" where
  "markAsReadStep messageIds st Ready =
     (if onReady st
      then st\<lparr>onReady := False, calls := calls st @ [OpenBox ''INBOX'' False]\<rparr>
      else st)"
| "markAsReadStep messageIds st (OpenBoxDone r) =
     (case r of
        Inl err \<Rightarrow> st\<lparr>promise := settle (promise st) (Rejected err)\<rparr>
      | Inr _ \<Rightarrow> st\<lparr>calls := calls st @ [AddFlags messageIds SEEN]\<rparr>)"
| "markAsReadStep messageIds st (AddFlagsDone r) =
     (let st' = st\<lparr>calls := calls st @ [End]\<rparr> in
      case r of
        Some err \<Rightarrow> st'\<lparr>promise := settle (promise st') (Rejected err)\<rparr>
      | None \<Rightarrow> st'\<lparr>promise := settle (promise st') (Resolved True)\<rparr>)"
| "markAsReadStep messageIds st (Error err) =
     (if onError st
      then st\<lparr>onError := False, promise := settle (promise st) (Rejected err)\<rparr>
      else st)"
| "markAsReadStep messageIds st _ = st"

definition markAsRead :: "imapArgs \<Rightarrow> int list \<Rightarrow> imapEvent list \<Rightarrow> bool conn" where
  "markAsRead a messageIds events = foldl (markAsReadStep messageIds) (connect a) events"

text \<open>\<open>getFolders\<close>: lines 335 to 349.\<close>

fun getFoldersStep :: "folder list conn \<Rightarrow> imapEvent \<Rightarrow> folder list conn" where
  "getFoldersStep st Ready =
     (if onReady st then st\<lparr>onReady := False, calls := calls st @ [GetBoxes]\<rparr> else st)"
| "getFoldersStep st (GetBoxesDone r) =
     (let st' = st\<lparr>calls := calls st @ [End]\<rparr> in
      case r of
        Inl err \<Rightarrow> st'\<lparr>promise := settle (promise st') (Rejected err)\<rparr>
      | Inr bs \<Rightarrow> st'\<lparr>promise := settle (promise st') (Resolved (extractFolderNames bs []))\<rparr>)"
| "getFoldersStep st (Error err) =
     (if onError st
      then st\<lparr>onError := False, promise := settle (promise st) (Rejected err)\<rparr>
      else st)"
| "getFoldersStep st _ = st"

definition getFolders :: "imapArgs \<Rightarrow> imapEvent list \<Rightarrow> folder list conn" where
  "getFolders a events = foldl getFoldersStep (connect a) events"

text \<open>
  \<open>fetchImapEmails\<close>: lines 107 to 169. Each \<open>message\<close> event creates an object
  \<open>emailData\<close>; the \<open>attributes\<close> handler pushes the object itself onto \<open>emails\<close>, and the
  parser's callback fills it whenever it runs, before or after. So the state keeps the
  objects in a store, by message, and \<open>emails\<close> as the list of their keys; a field that
  has not been assigned is \<open>None\<close>. What \<open>resolve(emails)\<close> hands over is read from the
  store at that moment. The number \<open>k\<close> of \<open>Message k\<close>, \<open>BodyParsed k\<close> and
  \<open>Attributes k\<close> names the \<open>msg\<close> object of one \<open>message\<close> event, so a run has
  \<open>Message k\<close> once for each \<open>k\<close>.

  Line 161 sorts with the comparator \<open>new Date(b.date) - new Date(a.date)\<close>, applied to
  display texts; what \<open>Date\<close> makes of such a text, and what \<open>sort\<close> does where the
  comparator yields NaN, is left to the platform, so the sort is the parameter
  \<open>arraySort\<close>.
\<close>

record emailData =
  e_from :: "string option"
  e_to :: "string option"
  e_subject :: "string option"
  e_date :: "dateField option"
  e_body :: "string option"
  e_unread :: "bool option"
  e_uid :: "int option"

definition emptyData :: emailData where
  "emptyData = \<lparr>e_from = None, e_to = None, e_subject = None, e_date = None,
                 e_body = None, e_unread = None, e_uid = None\<rparr>"

record fetchArgs = imapArgs +
  folder :: string
  count :: int

record fetchState =
  fcalls :: "imapCall list"
  fonReady :: bool
  fonError :: bool
  fetchOpen :: bool
  onFetchError :: bool
  onFetchEnd :: bool
  store :: "nat \<Rightarrow> emailData"
  emails :: "nat list"
  flogs :: "string list"
  fpromise :: "emailData list promise"

definition fetchConnect :: "fetchArgs \<Rightarrow> fetchState" where
  "fetchConnect a =
     \<lparr>fcalls = [Connect (imapHost a) (imapPort a)], fonReady = True, fonError = True,
      fetchOpen = False, onFetchError = False, onFetchEnd = False,
      store = (\<lambda>_. emptyData), emails = [], flogs = [], fpromise = Pending\<rparr>"

fun fetchImapStep ::
  "(emailData list \<Rightarrow> emailData list) \<Rightarrow> fetchArgs \<Rightarrow> fetchState \<Rightarrow> imapEvent \<Rightarrow> fetchState"
where
  "fetchImapStep arraySort a st Ready =
     (if fonReady st
      then st\<lparr>fonReady := False, fcalls := fcalls st @ [OpenBox (folder a) True]\<rparr>
      else st)"
| "fetchImapStep arraySort a st (OpenBoxDone r) =
     (case r of
        Inl err \<Rightarrow> st\<lparr>fpromise := settle (fpromise st) (Rejected err)\<rparr>
      | Inr boxTotal \<Rightarrow>
          if boxTotal = 0
          then st\<lparr>fpromise := settle (fpromise st) (Resolved []),
                  fcalls := fcalls st @ [End]\<rparr>
          else
            (let fetchCount = min (count a) boxTotal;
                 start = max 1 (boxTotal - fetchCount + 1);
                 end = boxTotal
             in st\<lparr>fcalls := fcalls st @ [SeqFetch start end], fetchOpen := True,
                    onFetchError := True, onFetchEnd := True\<rparr>))"
| "fetchImapStep arraySort a st (Message k) =
     (if fetchOpen st then st\<lparr>store := (store st)(k := emptyData)\<rparr> else st)"
| "fetchImapStep arraySort a st (BodyParsed k r) =
     (if fetchOpen st
      then (case r of
              Inl err \<Rightarrow> st\<lparr>flogs := flogs st @ [LOG_PARSE @ err]\<rparr>
            | Inr parsed \<Rightarrow>
                st\<lparr>store := (store st)(k := (store st k)
                      \<lparr>e_from := Some (fromText (p_from parsed)),
                       e_to := Some (fromText (p_to parsed)),
                       e_subject := Some (subjectText (p_subject parsed)),
                       e_date := Some (dateText (p_date parsed)),
                       e_body := bodyText parsed\<rparr>)\<rparr>)
      else st)"
| "fetchImapStep arraySort a st (Attributes k flags uid) =
     (if fetchOpen st \<and> k \<notin> set (emails st)
      then st\<lparr>store := (store st)(k := (store st k)
                  \<lparr>e_unread := Some (SEEN \<notin> set flags), e_uid := Some uid\<rparr>),
              emails := emails st @ [k]\<rparr>
      else st)"
| "fetchImapStep arraySort a st (FetchError err) =
     (if onFetchError st
      then st\<lparr>onFetchError := False, fpromise := settle (fpromise st) (Rejected err)\<rparr>
      else st)"
| "fetchImapStep arraySort a st FetchEnd =
     (if onFetchEnd st
      then st\<lparr>onFetchEnd := False, fcalls := fcalls st @ [End],
              fpromise := settle (fpromise st) (Resolved (arraySort (map (store st) (emails st))))\<rparr>
      else st)"
| "fetchImapStep arraySort a st (Error err) =
     (if fonError st
      then st\<lparr>fonError := False, fpromise := settle (fpromise st) (Rejected err)\<rparr>
      else st)"
| "fetchImapStep arraySort a st _ = st"

definition fetchImapEmails ::
  "(emailData list \<Rightarrow> emailData list) \<Rightarrow> fetchArgs \<Rightarrow> imapEvent list \<Rightarrow> fetchState" where
  "fetchImapEmails arraySort a events = foldl (fetchImapStep arraySort a) (fetchConnect a) events"

section \<open>emailUtils.js: the POP3 adapters\<close>

datatype pop3Event =
    PConnect
  | PError string
  | LoginDone "string option"
  | StatDone "string + int"
  | RetrDone int "string + string"
  | ParseDone int "string + parsedMail"

datatype pop3Call =
    PConnectCall jsval jsval
  | Quit
  | Login string string
  | Stat
  | Retr int

record pop3Args =
  q_email :: string
  q_password :: string
  pop3Host :: jsval
  pop3Port :: jsval

record pop3FetchArgs = pop3Args +
  q_count :: int

record pop3Conn =
  pcalls :: "pop3Call list"
  ppromise :: "bool promise"

text \<open>\<open>testPop3Connection\<close>: lines 70 to 89.\<close>

fun testPop3Step :: "pop3Args \<Rightarrow> pop3Conn \<Rightarrow> pop3Event \<Rightarrow> pop3Conn" where
  "testPop3Step a st (PError err) =
     st\<lparr>pcalls := pcalls st @ [Quit],
        ppromise := settle (ppromise st) (Rejected (''POP3 connection error: '' @ err))\<rparr>"
| "testPop3Step a st PConnect =
     st\<lparr>pcalls := pcalls st @ [Login (q_email a) (q_password a)]\<rparr>"
| "testPop3Step a st (LoginDone r) =
     (case r of
        Some err \<Rightarrow>
          st\<lparr>pcalls := pcalls st @ [Quit],
             ppromise := settle (ppromise st) (Rejected (''POP3 login failed: '' @ err))\<rparr>
      | None \<Rightarrow>
          st\<lparr>pcalls := pcalls st @ [Quit],
             ppromise := settle (ppromise st) (Resolved True)\<rparr>)"
| "testPop3Step a st _ = st"

definition testPop3Connection :: "pop3Args \<Rightarrow> pop3Event list \<Rightarrow> pop3Conn" where
  "testPop3Connection a events =
     foldl (testPop3Step a)
       \<lparr>pcalls = [PConnectCall (pop3Host a) (pop3Port a)], ppromise = Pending\<rparr> events"

text \<open>
  \<open>fetchPop3Emails\<close>: lines 180 to 239. \<open>fetchCount\<close> and \<open>fetched\<close> exist once the
  \<open>stat\<close> callback has run (\<open>fetchCount = None\<close> before). \<open>RetrDone i\<close> is the callback of
  \<open>client.retr(i, ...)\<close>, \<open>ParseDone i\<close> the callback of the \<open>simpleParser\<close> call made
  for message \<open>i\<close>.
\<close>

record pop3Email =
  pe_id :: int
  pe_from :: string
  pe_subject :: string
  pe_date :: dateField
  pe_body :: "string option"

record pop3Fetch =
  qcalls :: "pop3Call list"
  qlogs :: "string list"
  qemails :: "pop3Email list"
  fetchCount :: "int option"
  fetched :: int
  qpromise :: "pop3Email list promise"

fun fetchPop3Step :: "pop3FetchArgs \<Rightarrow> pop3Fetch \<Rightarrow> pop3Event \<Rightarrow> pop3Fetch" where
  "fetchPop3Step a st (PError err) =
     st\<lparr>qcalls := qcalls st @ [Quit],
        qpromise := settle (qpromise st) (Rejected (''POP3 connection error: '' @ err))\<rparr>"
| "fetchPop3Step a st PConnect =
     st\<lparr>qcalls := qcalls st @ [Login (q_email a) (q_password a)]\<rparr>"
| "fetchPop3Step a st (LoginDone r) =
     (case r of
        Some err \<Rightarrow>
          st\<lparr>qcalls := qcalls st @ [Quit],
             qpromise := settle (qpromise st) (Rejected (''POP3 login failed: '' @ err))\<rparr>
      | None \<Rightarrow> st\<lparr>qcalls := qcalls st @ [Stat]\<rparr>)"
| "fetchPop3Step a st (StatDone r) =
     (case r of
        Inl err \<Rightarrow>
          st\<lparr>qcalls := qcalls st @ [Quit],
             qpromise := settle (qpromise st) (Rejected (''POP3 stat failed: '' @ err))\<rparr>
      | Inr msgCount \<Rightarrow>
          (let fc = min msgCount (q_count a) in
           if fc = 0
           then st\<lparr>qcalls := qcalls st @ [Quit],
                   qpromise := settle (qpromise st) (Resolved [])\<rparr>
           else st\<lparr>fetchCount := Some fc, fetched := 0,
                   qcalls := qcalls st @ map Retr [1..fc]\<rparr>))"
| "fetchPop3Step a st (RetrDone i r) =
     (case fetchCount st of
        None \<Rightarrow> st
      | Some fc \<Rightarrow>
          (case r of
             Inl err \<Rightarrow> st\<lparr>qlogs := qlogs st @ [LOG_RETR @ err], fetched := fetched st + 1\<rparr>
           | Inr data \<Rightarrow> st))"
| "fetchPop3Step a st (ParseDone i r) =
     (case fetchCount st of
        None \<Rightarrow> st
      | Some fc \<Rightarrow>
          (case r of
             Inl err \<Rightarrow> st\<lparr>qlogs := qlogs st @ [LOG_PARSE @ err]\<rparr>
           | Inr parsed \<Rightarrow>
               (let st' = st\<lparr>qemails := qemails st @
                               [\<lparr>pe_id = i, pe_from = fromText (p_from parsed),
                                 pe_subject = subjectText (p_subject parsed),
                                 pe_date = dateText (p_date parsed),
                                 pe_body = bodyText parsed\<rparr>],
                             fetched := fetched st + 1\<rparr>
                in if fetched st' = fc
                   then st'\<lparr>qcalls := qcalls st' @ [Quit],
                            qpromise := settle (qpromise st') (Resolved (qemails st'))\<rparr>
                   else st')))"

definition fetchPop3Emails :: "pop3FetchArgs \<Rightarrow> pop3Event list \<Rightarrow> pop3Fetch" where
  "fetchPop3Emails a events =
     foldl (fetchPop3Step a)
       \<lparr>qcalls = [PConnectCall (pop3Host a) (pop3Port a)], qlogs = [], qemails = [],
        fetchCount = None, fetched = 0, qpromise = Pending\<rparr> events"

section \<open>The server: the routes that use the adapters\<close>

text \<open>
  \<open>req.body\<close>, as far as the routes read it. The validators check \<open>email\<close>,
  \<open>password\<close> and \<open>messageIds\<close> only. \<open>fetchProtocol\<close> is absent or a string; an absent
  one becomes the property key \<open>undefined\<close> in the response.
\<close>

record body =
  b_email :: string
  b_password :: string
  b_fetchProtocol :: "string option"
  b_imapHost :: jsval
  b_imapPort :: jsval
  b_pop3Host :: jsval
  b_pop3Port :: jsval
  b_smtpHost :: jsval
  b_smtpPort :: jsval
  b_messageIds :: "int list"

text \<open>
  The servers of one request: what the IMAP and POP3 libraries deliver to the adapter,
  and what \<open>transporter.verify\<close> reports.
\<close>

record world =
  imapEvents :: "imapEvent list"
  pop3Events :: "pop3Event list"
  verify :: "smtpOptions \<Rightarrow> string option callback"

type_synonym jsonObj = "(string \<times> jsval) list"

text \<open>
  A property of an object literal: a repeated key keeps its place and takes the new
  value. Keys are listed in the order they were written; JavaScript lists a key that
  reads as an integer before the others, which the keys of the routes' answers
  (\<open>success\<close>, \<open>imap\<close>, \<open>pop3\<close>, \<open>smtp\<close>, \<open>error\<close>, \<open>message\<close>) are not.
\<close>

definition setProp :: "string \<Rightarrow> jsval \<Rightarrow> jsonObj \<Rightarrow> jsonObj" where
  "setProp k v obj =
     (if k \<in> set (map fst obj)
      then map (\<lambda>(k', v'). if k' = k then (k', v) else (k', v')) obj
      else obj @ [(k, v)])"

datatype netCall = Imap imapCall | Pop3 pop3Call | SmtpVerify smtpOptions

text \<open>
  What a route does with a request: the JSON it answers with (\<open>NoResponse\<close> when it
  awaits a promise that stays pending, \<open>Uncaught\<close> when the handler throws), and the
  commands sent to mail servers, in order. The calls of \<open>logger\<close> and \<open>logActivity\<close> are
  left out: the answer does not depend on them.
\<close>

datatype response = Json jsonObj | NoResponse | Uncaught jserror

text \<open>The Russian messages of the routes, in English.\<close>

definition MSG_IMAP_MANUAL :: string where
  "MSG_IMAP_MANUAL = ''Could not determine the IMAP server settings. Please give host and port by hand.''"

definition MSG_POP3_MANUAL :: string where
  "MSG_POP3_MANUAL = ''Could not determine the POP3 server settings. Please give host and port by hand.''"


definition MSG_UNKNOWN_PROTOCOL :: string where
  "MSG_UNKNOWN_PROTOCOL = ''Unknown receive protocol.''"

fun join :: "string \<Rightarrow> string list \<Rightarrow> string" where
  "join sep [] = []"
| "join sep [x] = x"
| "join sep (x # y # ys) = x @ sep @ join sep (y # ys)"

text \<open>
  The six \<open>final...\<close> constants of \<open>/api/test-connection\<close>:
  \<open>providerSettings ? providerSettings.imap.host : imapHost\<close> and so on. Reading \<open>.host\<close>
  of a protocol the matched profile does not have raises a TypeError.
\<close>

record settings =
  finalImapHost :: jsval
  finalImapPort :: jsval
  finalPop3Host :: jsval
  finalPop3Port :: jsval
  finalSmtpHost :: jsval
  finalSmtpPort :: jsval

definition resolveSettings :: "providers \<Rightarrow> body \<Rightarrow> jserror + settings" where
  "resolveSettings providers b =
     (case getProviderSettings providers (b_email b) of
        Inl e \<Rightarrow> Inl e
      | Inr None \<Rightarrow>
          Inr \<lparr>finalImapHost = b_imapHost b, finalImapPort = b_imapPort b,
               finalPop3Host = b_pop3Host b, finalPop3Port = b_pop3Port b,
               finalSmtpHost = b_smtpHost b, finalSmtpPort = b_smtpPort b\<rparr>
      | Inr (Some providerSettings) \<Rightarrow>
          (case (imap providerSettings, pop3 providerSettings, smtp providerSettings) of
             (Some i, Some p, Some s) \<Rightarrow>
               Inr \<lparr>finalImapHost = JStr (host i), finalImapPort = JNum (port i),
                    finalPop3Host = JStr (host p), finalPop3Port = JNum (port p),
                    finalSmtpHost = JStr (host s), finalSmtpPort = JNum (port s)\<rparr>
           | _ \<Rightarrow> Inl TypeError))"

text \<open>
  The second half of \<open>/api/test-connection\<close>: the SMTP check and the response, given the
  outcome of the first half (\<open>fetchResult\<close>, \<open>errs\<close>, the commands sent so far).
\<close>

definition smtpLeg ::
  "bool \<Rightarrow> world \<Rightarrow> body \<Rightarrow> settings \<Rightarrow> bool \<Rightarrow> string list \<Rightarrow> netCall list
   \<Rightarrow> response \<times> netCall list" where
  "smtpLeg production w b fs fetchResult errs net =
     (let (transporter, p) =
            testSmtpConnection production (verify w)
              \<lparr>s_email = b_email b, s_password = b_password b,
               smtpHost = finalSmtpHost fs, smtpPort = finalSmtpPort fs\<rparr>;
          net' = net @ [SmtpVerify transporter];
          answer = (\<lambda>smtpResult errs'.
            Json (setProp ''error'' (if errs' \<noteq> [] then JStr (join '', '' errs') else JNull)
                 (setProp ''smtp'' (JBool smtpResult)
                 (setProp (case b_fetchProtocol b of Some k \<Rightarrow> k | None \<Rightarrow> ''undefined'')
                       (JBool fetchResult)
                 (setProp ''success'' (JBool (fetchResult \<and> smtpResult)) [])))))
      in case p of
           Pending \<Rightarrow> (NoResponse, net')
         | Resolved _ \<Rightarrow> (answer True errs, net')
         | Rejected m \<Rightarrow> (answer False (errs @ [''SMTP: '' @ m]), net'))"

text \<open>\<open>app.post('/api/test-connection', ...)\<close>, after validation.\<close>

definition testConnection ::
  "providers \<Rightarrow> bool \<Rightarrow> world \<Rightarrow> body \<Rightarrow> response \<times> netCall list" where
  "testConnection providers production w b =
     (case resolveSettings providers b of
        Inl e \<Rightarrow> (Uncaught e, [])
      | Inr fs \<Rightarrow>
          if b_fetchProtocol b = Some ''imap'' then
            if \<not> truthy (finalImapHost fs) \<or> \<not> truthy (finalImapPort fs)
            then (Json [(''success'', JBool False), (''error'', JStr MSG_IMAP_MANUAL)], [])
            else
              (let c = testImapConnection
                         \<lparr>i_email = b_email b, i_password = b_password b,
                          imapHost = finalImapHost fs, imapPort = finalImapPort fs\<rparr>
                         (imapEvents w);
                   net = map Imap (calls c)
               in case promise c of
                    Pending \<Rightarrow> (NoResponse, net)
                  | Resolved _ \<Rightarrow> smtpLeg production w b fs True [] net
                  | Rejected m \<Rightarrow> smtpLeg production w b fs False [''IMAP: '' @ m] net)
          else if b_fetchProtocol b = Some ''pop3'' then
            if \<not> truthy (finalPop3Host fs) \<or> \<not> truthy (finalPop3Port fs)
            then (Json [(''success'', JBool False), (''error'', JStr MSG_POP3_MANUAL)], [])
            else
              (let c = testPop3Connection
                         \<lparr>q_email = b_email b, q_password = b_password b,
                          pop3Host = finalPop3Host fs, pop3Port = finalPop3Port fs\<rparr>
                         (pop3Events w);
                   net = map Pop3 (pcalls c)
               in case ppromise c of
                    Pending \<Rightarrow> (NoResponse, net)
                  | Resolved _ \<Rightarrow> smtpLeg production w b fs True [] net
                  | Rejected m \<Rightarrow> smtpLeg production w b fs False [''POP3: '' @ m] net)
          else smtpLeg production w b fs False [MSG_UNKNOWN_PROTOCOL] [])"


section \<open>Notions of the specification\<close>

text \<open>
  The flattener's result as the specification words it: the mailboxes of the hierarchy
  depth-first, a parent before its children, each with the chain of its ancestors (name
  and delimiter, outermost first, the mailbox itself last); and the qualified name of such
  a chain, the names joined by the delimiter of the mailbox each name belongs to.
\<close>

fun depthFirst :: "boxes \<Rightarrow> (string \<times> string option) list list" where
  "depthFirst [] = []"
| "depthFirst ((name, Box d c) # rest) =
     [(name, d)] #
     map ((#) (name, d)) (case c of None \<Rightarrow> [] | Some ch \<Rightarrow> depthFirst ch) @
     depthFirst rest"

fun qualifiedName :: "(string \<times> string option) list \<Rightarrow> string" where
  "qualifiedName [] = []"
| "qualifiedName [(name, d)] = name"
| "qualifiedName ((name, d) # x # xs) = plusDelimiter name d @ qualifiedName (x # xs)"

text \<open>The hierarchy \<open>A{B,C{D}}\<close> with delimiter \<open>/\<close>, and its top level read as three mailboxes.\<close>

definition treeABCD :: boxes where
  "treeABCD =
     [(''A'', Box (Some ''/'')
        (Some [(''B'', Box (Some ''/'') None),
               (''C'', Box (Some ''/'') (Some [(''D'', Box (Some ''/'') None)]))]))]"

text \<open>
  A provider table as an object literal has it: every key once; here also no empty key
  (which \<open>if (providerKey)\<close> would take for no match), and every profile that can match,
  having an IMAP or a POP3 entry, has all of IMAP, POP3 and SMTP.
\<close>

definition wfProviders :: "providers \<Rightarrow> bool" where
  "wfProviders providers =
     (distinct (map fst providers) \<and>
      list_all (\<lambda>(key, p). key \<noteq> [] \<and>
         (imap p = None \<and> pop3 p = None \<or> imap p \<noteq> None \<and> pop3 p \<noteq> None \<and> smtp p \<noteq> None))
       providers)"

text \<open>
  A domain is contained in a host when the host is some text, the domain, and some text;
  a profile names a domain when its IMAP or its POP3 host contains it.
\<close>

definition hostContains :: "endpoint option \<Rightarrow> string \<Rightarrow> bool" where
  "hostContains ep d = (\<exists>e ps ss. ep = Some e \<and> host e = ps @ d @ ss)"

definition profileContains :: "profile \<Rightarrow> string \<Rightarrow> bool" where
  "profileContains p d = (hostContains (imap p) d \<or> hostContains (pop3 p) d)"

text \<open>
  The report of a connection test in which both legs have run: the overall flag, one flag
  for each leg under its key, and the messages of the legs that failed, each under the
  name of its leg.
\<close>

fun resolved :: "'a promise \<Rightarrow> bool" where
  "resolved (Resolved _) = True"
| "resolved _ = False"

fun legError :: "string \<Rightarrow> 'a promise \<Rightarrow> string list" where
  "legError leg (Rejected m) = [leg @ '': '' @ m]"
| "legError leg _ = []"

definition report :: "string \<Rightarrow> string \<Rightarrow> bool promise \<Rightarrow> bool promise \<Rightarrow> jsonObj" where
  "report key leg receive send =
     [(''success'', JBool (resolved receive \<and> resolved send)),
      (key, JBool (resolved receive)),
      (''smtp'', JBool (resolved send)),
      (''error'',
         if legError leg receive @ legError ''SMTP'' send \<noteq> []
         then JStr (join '', '' (legError leg receive @ legError ''SMTP'' send))
         else JNull)]"

section \<open>Example requests and servers\<close>

text \<open>
  An address at a domain the directory does not know, a reachable SMTP server given by
  hand, and no IMAP server given.
\<close>

definition noImapHost :: body where
  "noImapHost =
     \<lparr>b_email = ''user@example.org'', b_password = ''secret'',
      b_fetchProtocol = Some ''imap'',
      b_imapHost = JUndefined, b_imapPort = JUndefined,
      b_pop3Host = JUndefined, b_pop3Port = JUndefined,
      b_smtpHost = JStr ''smtp.example.org'', b_smtpPort = JNum 465,
      b_messageIds = []\<rparr>"

text \<open>The same with an IMAP server given, one that refuses the connection.\<close>

definition imapGiven :: body where
  "imapGiven = noImapHost\<lparr>b_imapHost := JStr ''imap.example.org'', b_imapPort := JNum 993\<rparr>"

definition imapRefuses :: world where
  "imapRefuses =
     \<lparr>imapEvents = [Error ''connect ECONNREFUSED''], pop3Events = [],
      verify = (\<lambda>_. Called None)\<rparr>"



text \<open>A Gmail address, written in capitals, with settings given by hand that differ from the directory's.\<close>

definition gmailOverridden :: body where
  "gmailOverridden =
     \<lparr>b_email = ''me@GMAIL.com'', b_password = ''secret'',
      b_fetchProtocol = Some ''imap'',
      b_imapHost = JStr ''imap.example.org'', b_imapPort = JNum 143,
      b_pop3Host = JStr ''pop.example.org'', b_pop3Port = JNum 110,
      b_smtpHost = JStr ''smtp.example.org'', b_smtpPort = JNum 465,
      b_messageIds = []\<rparr>"

text \<open>
  The Gmail address \<open>"a@b"@gmail.com\<close>, whose local part is a quoted string with an \<open>@\<close>
  in it (\<open>CHR 0x22\<close> is the double quote), with the same settings given by hand.
\<close>

definition quotedLocalPart :: body where
  "quotedLocalPart =
     gmailOverridden\<lparr>b_email := (CHR 0x22 # ''a@b'' @ [CHR 0x22]) @ CHR ''@'' # ''gmail.com''\<rparr>"

text \<open>Arguments of the IMAP and fetch adapters, and a parsed message dated \<open>t\<close>.\<close>

definition imapAccount :: imapArgs where
  "imapAccount =
     \<lparr>i_email = ''user@example.org'', i_password = ''secret'',
      imapHost = JStr ''imap.example.org'', imapPort = JNum 993\<rparr>"

definition imapBox :: "int \<Rightarrow> fetchArgs" where
  "imapBox n =
     \<lparr>i_email = ''user@example.org'', i_password = ''secret'',
      imapHost = JStr ''imap.example.org'', imapPort = JNum 993,
      folder = ''INBOX'', count = n\<rparr>"

definition pop3Box :: "int \<Rightarrow> pop3FetchArgs" where
  "pop3Box n =
     \<lparr>q_email = ''user@example.org'', q_password = ''secret'',
      pop3Host = JStr ''pop.example.org'', pop3Port = JNum 995, q_count = n\<rparr>"

definition mailAt :: "int \<Rightarrow> parsedMail" where
  "mailAt t =
     \<lparr>p_from = Some ''a@example.org'', p_to = Some ''user@example.org'',
      p_subject = Some ''hello'', p_date = Some t, p_html = None, p_text = Some ''text''\<rparr>"

section \<open>The folder tree flattener\<close>

lemma depthFirst_nonempty: "p \<in> set (depthFirst bs) \<Longrightarrow> p \<noteq> []"
  by (induction bs rule: depthFirst.induct) (auto split: option.splits)

lemma qualifiedName_Cons:
  "p \<noteq> [] \<Longrightarrow> qualifiedName ((n, d) # p) = plusDelimiter n d @ qualifiedName p"
  by (cases p) auto

lemma names_depthFirst:
  "map f_name (extractFolderNames bs prefix) = map (\<lambda>p. prefix @ qualifiedName p) (depthFirst bs)"
proof (induction bs prefix rule: extractFolderNames.induct)
  case (1 prefix)
  show ?case by simp
next
  case (2 name d c rest prefix)
  show ?case
  proof (cases c)
    case None
    with 2 show ?thesis by (simp add: Let_def)
  next
    case (Some ch)
    have "map (\<lambda>p. prefix @ qualifiedName ((name, d) # p)) (depthFirst ch)
        = map (\<lambda>p. plusDelimiter (prefix @ name) d @ qualifiedName p) (depthFirst ch)"
      by (rule map_cong) (auto simp: qualifiedName_Cons depthFirst_nonempty plusDelimiter_def)
    with 2 Some show ?thesis by (simp add: Let_def o_def)
  qed
qed

lemma delimiters_depthFirst:
  "map f_delimiter (extractFolderNames bs prefix) = map (\<lambda>p. snd (last p)) (depthFirst bs)"
proof (induction bs prefix rule: extractFolderNames.induct)
  case (1 prefix)
  show ?case by simp
next
  case (2 name d c rest prefix)
  show ?case
  proof (cases c)
    case None
    with 2 show ?thesis by (simp add: Let_def)
  next
    case (Some ch)
    have "map (\<lambda>p. snd (last ((name, d) # p))) (depthFirst ch)
        = map (\<lambda>p. snd (last p)) (depthFirst ch)"
      by (rule map_cong) (auto simp: depthFirst_nonempty)
    with 2 Some show ?thesis by (simp add: Let_def o_def)
  qed
qed

text \<open>
  The top level of the example read as the three mailboxes \<open>A\<close>, \<open>B\<close> and \<open>C{D}\<close> side by
  side: only then are the names \<open>A, B, C, C/D\<close>.
\<close>

lemma flatten_siblings:
  "map f_name (extractFolderNames
     [(''A'', Box (Some ''/'') None), (''B'', Box (Some ''/'') None),
      (''C'', Box (Some ''/'') (Some [(''D'', Box (Some ''/'') None)]))] [])
   = [''A'', ''B'', ''C'', ''C/D'']"
  by (simp add: plusDelimiter_def)

text \<open>
  C8, as stated: for the tree \<open>A{B,C{D}}\<close> the names come out as \<open>A, B, C, C/D\<close>. They do
  not: \<open>B\<close> and \<open>C\<close> are children of \<open>A\<close> and carry its name and delimiter.
\<close>

theorem flatten_example_counterexample:
  "map f_name (extractFolderNames treeABCD []) \<noteq> [''A'', ''B'', ''C'', ''C/D'']"
  by (simp add: treeABCD_def plusDelimiter_def)

text \<open>
  C8, amended: the flattener lists the mailboxes depth-first, a parent before its
  children, and the name of each is the prefix followed by the names of its ancestors and
  its own, each ancestor's name followed by that ancestor's delimiter; each entry carries
  the delimiter of its own mailbox. For the tree \<open>A{B,C{D}}\<close> with delimiter \<open>/\<close> the names
  are \<open>A, A/B, A/C, A/C/D\<close>.
\<close>

theorem flatten_depth_first:
  "map f_name (extractFolderNames bs prefix) = map (\<lambda>p. prefix @ qualifiedName p) (depthFirst bs)
   \<and> map f_delimiter (extractFolderNames bs prefix) = map (\<lambda>p. snd (last p)) (depthFirst bs)
   \<and> map f_name (extractFolderNames treeABCD []) = [''A'', ''A/B'', ''A/C'', ''A/C/D'']"
proof -
  have "map f_name (extractFolderNames treeABCD []) = [''A'', ''A/B'', ''A/C'', ''A/C/D'']"
    by (simp add: treeABCD_def plusDelimiter_def)
  then show ?thesis
    using names_depthFirst [of bs prefix] delimiters_depthFirst [of bs prefix] by simp
qed

section \<open>Provider resolution\<close>

lemma startsWith_iff: "startsWith s t \<longleftrightarrow> (\<exists>ss. s = t @ ss)"
  by (induction s t rule: startsWith.induct) auto

lemma includesStr_iff: "includesStr s t \<longleftrightarrow> (\<exists>ps ss. s = ps @ t @ ss)"
proof (induction s)
  case Nil
  show ?case by auto
next
  case (Cons x xs)
  have "(\<exists>ps ss. x # xs = ps @ t @ ss) \<longleftrightarrow> (\<exists>ss. x # xs = t @ ss) \<or> (\<exists>ps ss. xs = ps @ t @ ss)"
    by (auto simp: Cons_eq_append_conv)
  with Cons show ?case by (simp add: startsWith_iff)
qed

lemma split_no_sep: "c \<notin> set s \<Longrightarrow> split c s = [s]"
  by (induction s) auto

lemma split_first: "c \<notin> set l \<Longrightarrow> split c (l @ c # r) = l # split c r"
  by (induction l) auto

lemma split_head: "\<exists>rest. split c s = takeWhile (\<lambda>x. x \<noteq> c) s # rest"
  by (induction s) auto

lemma domain_of_address:
  "CHR ''@'' \<notin> set l \<Longrightarrow>
   index (split CHR ''@'' (l @ CHR ''@'' # r)) 1 = Some (takeWhile (\<lambda>x. x \<noteq> CHR ''@'') r)"
  using split_head [of "CHR ''@''" r] by (auto simp: split_first)

lemma domain_single_at:
  "CHR ''@'' \<notin> set d \<Longrightarrow> takeWhile (\<lambda>x. x \<noteq> CHR ''@'') d = d"
  by (induction d) auto

lemma no_at_TypeError:
  "CHR ''@'' \<notin> set email \<Longrightarrow> getProviderSettings providers email = Inl TypeError"
  by (simp add: getProviderSettings_def split_no_sep)

lemma findKey_find:
  "distinct (map fst ps) \<Longrightarrow> set rest \<subseteq> set ps \<Longrightarrow>
   findKey ps rest d = map_option fst (find (\<lambda>(key, p). providerMatches p d) rest)"
proof (induction rest)
  case Nil
  show ?case by simp
next
  case (Cons kp rest)
  obtain key p where kp: "kp = (key, p)" by (cases kp)
  with Cons.prems have m: "map_of ps key = Some p" by simp
  from Cons kp show ?case by (simp add: m)
qed

lemma hostMatches_iff: "hostMatches ep d \<longleftrightarrow> hostContains ep d"
  by (cases ep) (auto simp: hostMatches_def hostContains_def includesStr_iff)

lemma providerMatches_iff: "providerMatches p d \<longleftrightarrow> profileContains p d"
  by (simp add: providerMatches_def profileContains_def hostMatches_iff)

lemma find_first: "\<forall>y\<in>set ys. \<not> P y \<Longrightarrow> P x \<Longrightarrow> find P (ys @ x # zs) = Some x"
  by (induction ys) auto

lemma getProviderSettings_find:
  assumes "wfProviders providers" and "index (split CHR ''@'' email) 1 = Some d"
  shows "getProviderSettings providers email =
         Inr (map_option snd (find (\<lambda>(key, p). providerMatches p (toLowerCase d)) providers))"
proof (cases "find (\<lambda>(key, p). providerMatches p (toLowerCase d)) providers")
  case None
  with assms show ?thesis
    by (simp add: getProviderSettings_def findKey_find wfProviders_def)
next
  case (Some kp)
  obtain key p where kp: "kp = (key, p)" by (cases kp)
  from Some kp have mem: "(key, p) \<in> set providers"
    by (auto simp: find_Some_iff in_set_conv_nth)
  with assms(1) have "key \<noteq> []" and "map_of providers key = Some p"
    by (auto simp: wfProviders_def list_all_iff)
  with assms Some kp show ?thesis
    by (simp add: getProviderSettings_def findKey_find wfProviders_def)
qed

lemma containing_complete:
  assumes "wfProviders providers" and "(key, p) \<in> set providers" and "profileContains p d"
  shows "\<exists>i q s. imap p = Some i \<and> pop3 p = Some q \<and> smtp p = Some s"
proof -
  from assms(3) have "imap p \<noteq> None \<or> pop3 p \<noteq> None"
    by (auto simp: profileContains_def hostContains_def)
  with assms(1,2) show ?thesis
    by (auto simp: wfProviders_def list_all_iff)
qed

lemma wfProviders_PROVIDERS: "wfProviders PROVIDERS"
  by (simp add: wfProviders_def PROVIDERS_def)

text \<open>
  C3: an address without \<open>@\<close> is to fail resolution in a structured way. The code does
  not: \<open>split('@')[1]\<close> is \<open>undefined\<close> and \<open>.toLowerCase()\<close> throws a TypeError, whatever
  the address (lemma \<open>no_at_TypeError\<close>); here at the address \<open>nodomain\<close>.
\<close>

theorem no_at_sign_throws:
  "getProviderSettings PROVIDERS ''nodomain'' = Inl TypeError"
  by (simp add: getProviderSettings_def)

text \<open>
  What holds of the directory lookup. Take an address with an \<open>@\<close>, and as \<open>d\<close> the
  lower-cased piece that follows its first \<open>@\<close>, up to the next \<open>@\<close> if there is one (for
  an address \<open>local@domain\<close> with one \<open>@\<close>: the domain, lemma \<open>domain_single_at\<close>). If some
  profile of the table names \<open>d\<close>, then the table splits into profiles that do not name
  \<open>d\<close>, a profile that does, and the rest; \<open>getProviderSettings\<close> returns that profile,
  and the settings a route resolves for IMAP, POP3 and SMTP are its settings, whatever
  hosts and ports the request gives.
\<close>

lemma first_containing_profile_wins:
  assumes wf: "wfProviders providers"
    and email: "email = l @ CHR ''@'' # r" "CHR ''@'' \<notin> set l"
    and d: "d = toLowerCase (takeWhile (\<lambda>x. x \<noteq> CHR ''@'') r)"
    and known: "(k0, p0) \<in> set providers" "profileContains p0 d"
  shows "\<exists>before key p after i q s.
      providers = before @ (key, p) # after \<and>
      (\<forall>kp\<in>set before. \<not> profileContains (snd kp) d) \<and>
      profileContains p d \<and>
      getProviderSettings providers email = Inr (Some p) \<and>
      imap p = Some i \<and> pop3 p = Some q \<and> smtp p = Some s \<and>
      (\<forall>b. b_email b = email \<longrightarrow>
         resolveSettings providers b =
           Inr \<lparr>finalImapHost = JStr (host i), finalImapPort = JNum (port i),
                finalPop3Host = JStr (host q), finalPop3Port = JNum (port q),
                finalSmtpHost = JStr (host s), finalSmtpPort = JNum (port s)\<rparr>)"
proof -
  from email domain_of_address [of l r]
  have dom: "index (split CHR ''@'' email) 1 = Some (takeWhile (\<lambda>x. x \<noteq> CHR ''@'') r)"
    by simp
  from known have "\<exists>kp\<in>set providers. profileContains (snd kp) d"
    by (intro bexI [of _ "(k0, p0)"]) simp_all
  from split_list_first_prop [OF this] obtain before kp after where
    sp: "providers = before @ kp # after" and
    named': "profileContains (snd kp) d" and
    none: "\<forall>y\<in>set before. \<not> profileContains (snd y) d"
    by blast
  obtain key p where kp: "kp = (key, p)" by (cases kp)
  from named' kp have named: "profileContains p d" by simp
  from none have none': "\<forall>y\<in>set before. \<not> (case y of (key, p) \<Rightarrow> providerMatches p d)"
    by (simp add: providerMatches_iff split_beta)
  from named have "case (key, p) of (key, p) \<Rightarrow> providerMatches p d"
    by (simp add: providerMatches_iff)
  with none' have "find (\<lambda>(key, p). providerMatches p d) (before @ (key, p) # after) = Some (key, p)"
    by (rule find_first)
  with getProviderSettings_find [OF wf dom] sp kp d
  have gps: "getProviderSettings providers email = Inr (Some p)" by simp
  from sp kp have mem: "(key, p) \<in> set providers" by simp
  from containing_complete [OF wf mem named]
  obtain i q s where c: "imap p = Some i" "pop3 p = Some q" "smtp p = Some s" by blast
  have res: "\<forall>b. b_email b = email \<longrightarrow>
         resolveSettings providers b =
           Inr \<lparr>finalImapHost = JStr (host i), finalImapPort = JNum (port i),
                finalPop3Host = JStr (host q), finalPop3Port = JNum (port q),
                finalSmtpHost = JStr (host s), finalSmtpPort = JNum (port s)\<rparr>"
    using gps c by (simp add: resolveSettings_def)
  from sp kp have sp': "providers = before @ (key, p) # after" by simp
  show ?thesis
    by (rule exI [of _ before], rule exI [of _ key], rule exI [of _ p], rule exI [of _ after],
        rule exI [of _ i], rule exI [of _ q], rule exI [of _ s])
       (intro conjI sp' none named gps c res)
qed

text \<open>
  So \<open>me@GMAIL.com\<close>, with hosts and ports of \<open>example.org\<close> given by hand, resolves to the
  directory's Gmail settings.
\<close>

lemma gmail_overrides_ignored:
  "b_email gmailOverridden = ''me'' @ CHR ''@'' # ''GMAIL.com''
   \<and> b_imapHost gmailOverridden = JStr ''imap.example.org''
   \<and> resolveSettings PROVIDERS gmailOverridden =
       Inr \<lparr>finalImapHost = JStr ''imap.gmail.com'', finalImapPort = JNum 993,
            finalPop3Host = JStr ''pop.gmail.com'', finalPop3Port = JNum 995,
            finalSmtpHost = JStr ''smtp.gmail.com'', finalSmtpPort = JNum 587\<rparr>"
proof -
  define gmail where "gmail =
     \<lparr>profileName = ''Gmail'',
        imap = Some \<lparr>host = ''imap.gmail.com'', port = 993, secure = True\<rparr>,
        pop3 = Some \<lparr>host = ''pop.gmail.com'', port = 995, secure = True\<rparr>,
        smtp = Some \<lparr>host = ''smtp.gmail.com'', port = 587, secure = False\<rparr>,
        requiresAppPassword = True,
        authURL = Some ''https://myaccount.google.com/apppasswords''\<rparr>"
  have lower: "toLowerCase ''GMAIL.com'' = ''gmail.com''"
    by code_simp
  then have d: "''gmail.com'' = toLowerCase (takeWhile (\<lambda>x. x \<noteq> CHR ''@'') ''GMAIL.com'')"
    by simp
  have mem: "(''gmail'', gmail) \<in> set PROVIDERS"
    by (simp add: PROVIDERS_def gmail_def)
  have named: "profileContains gmail ''gmail.com''"
    unfolding profileContains_def hostContains_def
    by (rule disjI1, rule exI [of _ "\<lparr>host = ''imap.gmail.com'', port = 993, secure = True\<rparr>"],
        rule exI [of _ "''imap.''"], rule exI [of _ "[]"])
       (simp add: gmail_def)
  have email: "b_email gmailOverridden = ''me'' @ CHR ''@'' # ''GMAIL.com''"
    by (simp add: gmailOverridden_def)
  from first_containing_profile_wins [OF wfProviders_PROVIDERS email _ d mem named]
  obtain before key p after i q s where
    sp: "PROVIDERS = before @ (key, p) # after" and
    parts: "imap p = Some i" "pop3 p = Some q" "smtp p = Some s" and
    gps: "getProviderSettings PROVIDERS (b_email gmailOverridden) = Inr (Some p)" and
    res: "\<forall>b. b_email b = b_email gmailOverridden \<longrightarrow>
         resolveSettings PROVIDERS b =
           Inr \<lparr>finalImapHost = JStr (host i), finalImapPort = JNum (port i),
                finalPop3Host = JStr (host q), finalPop3Port = JNum (port q),
                finalSmtpHost = JStr (host s), finalSmtpPort = JNum (port s)\<rparr>"
    by auto
  have "getProviderSettings PROVIDERS (b_email gmailOverridden) = Inr (Some gmail)"
    by (simp add: getProviderSettings_def email lower PROVIDERS_def gmail_def
        providerMatches_def hostMatches_def Let_def)
  with gps have "p = gmail" by simp
  with parts have
    "i = \<lparr>host = ''imap.gmail.com'', port = 993, secure = True\<rparr>"
    "q = \<lparr>host = ''pop.gmail.com'', port = 995, secure = True\<rparr>"
    "s = \<lparr>host = ''smtp.gmail.com'', port = 587, secure = False\<rparr>"
    by (simp_all add: gmail_def)
  with res have "resolveSettings PROVIDERS gmailOverridden =
       Inr \<lparr>finalImapHost = JStr ''imap.gmail.com'', finalImapPort = JNum 993,
            finalPop3Host = JStr ''pop.gmail.com'', finalPop3Port = JNum 995,
            finalSmtpHost = JStr ''smtp.gmail.com'', finalSmtpPort = JNum 587\<rparr>"
    by simp
  moreover have "b_imapHost gmailOverridden = JStr ''imap.example.org''"
    by (simp add: gmailOverridden_def)
  ultimately show ?thesis
    using email by simp
qed

text \<open>
  C7: an address whose domain is contained in the IMAP or POP3 host of a profile is to
  resolve to that profile's settings, whatever the request gives. For \<open>"a@b"@gmail.com\<close> it
  does not: \<open>split('@')[1]\<close> is the piece \<open>b"\<close> between the first two \<open>@\<close>, not the domain
  \<open>gmail.com\<close> (which \<open>imap.gmail.com\<close> contains), no profile matches, and the request's
  hosts and ports are used.
\<close>

theorem quoted_local_part_unresolved:
  "b_email quotedLocalPart = (CHR 0x22 # ''a@b'' @ [CHR 0x22]) @ CHR ''@'' # ''gmail.com''
   \<and> ''imap.gmail.com'' = ''imap.'' @ toLowerCase ''gmail.com''
   \<and> index (split CHR ''@'' (b_email quotedLocalPart)) 1 = Some [CHR ''b'', CHR 0x22]
   \<and> getProviderSettings PROVIDERS (b_email quotedLocalPart) = Inr None
   \<and> resolveSettings PROVIDERS quotedLocalPart =
       Inr \<lparr>finalImapHost = JStr ''imap.example.org'', finalImapPort = JNum 143,
            finalPop3Host = JStr ''pop.example.org'', finalPop3Port = JNum 110,
            finalSmtpHost = JStr ''smtp.example.org'', finalSmtpPort = JNum 465\<rparr>"
proof -
  have email: "b_email quotedLocalPart = (CHR 0x22 # ''a@b'' @ [CHR 0x22]) @ CHR ''@'' # ''gmail.com''"
    by (simp add: quotedLocalPart_def)
  have lower: "toLowerCase ''gmail.com'' = ''gmail.com''" "toLowerCase [CHR ''b'', CHR 0x22] = [CHR ''b'', CHR 0x22]"
    by code_simp+
  have piece: "index (split CHR ''@'' (b_email quotedLocalPart)) 1 = Some [CHR ''b'', CHR 0x22]"
    by (simp add: email)
  have none: "getProviderSettings PROVIDERS (b_email quotedLocalPart) = Inr None"
    unfolding getProviderSettings_def piece
    by (simp add: lower PROVIDERS_def providerMatches_def hostMatches_def Let_def)
  have "resolveSettings PROVIDERS quotedLocalPart =
       Inr \<lparr>finalImapHost = JStr ''imap.example.org'', finalImapPort = JNum 143,
            finalPop3Host = JStr ''pop.example.org'', finalPop3Port = JNum 110,
            finalSmtpHost = JStr ''smtp.example.org'', finalSmtpPort = JNum 465\<rparr>"
    by (simp add: resolveSettings_def none) (simp add: quotedLocalPart_def gmailOverridden_def)
  with email lower piece none show ?thesis by simp
qed

section \<open>The TLS flag of the SMTP transport\<close>

lemma getProviderSettings_member:
  "getProviderSettings providers email = Inr (Some p) \<Longrightarrow> \<exists>key. (key, p) \<in> set providers"
  by (auto simp: getProviderSettings_def Let_def split: option.splits if_splits
      dest: map_of_SomeD)

lemma PROVIDERS_smtp_587:
  "(key, p) \<in> set PROVIDERS \<Longrightarrow> smtp p = Some s \<Longrightarrow> port s = 587"
  by (auto simp: PROVIDERS_def)

lemma setProp_report:
  "key \<noteq> ''success'' \<Longrightarrow> key \<noteq> ''smtp'' \<Longrightarrow> key \<noteq> ''error'' \<Longrightarrow>
   setProp ''error'' e (setProp ''smtp'' s (setProp key r (setProp ''success'' a [])))
   = [(''success'', a), (key, r), (''smtp'', s), (''error'', e)]"
  by (simp add: setProp_def)

lemma smtpLeg_net:
  "snd (smtpLeg production w b fs fetchResult errs net) =
   net @ [SmtpVerify (fst (testSmtpConnection production (verify w)
            \<lparr>s_email = b_email b, s_password = b_password b,
             smtpHost = finalSmtpHost fs, smtpPort = finalSmtpPort fs\<rparr>))]"
  by (simp add: smtpLeg_def Let_def split: prod.splits promise.splits)

lemma smtpLeg_verify:
  "SmtpVerify opts \<in> set (snd (smtpLeg production w b fs fetchResult errs net)) \<Longrightarrow>
   SmtpVerify opts \<in> set net \<or>
   o_port opts = finalSmtpPort fs \<and> o_secure opts = (finalSmtpPort fs = JNum 465)"
  by (auto simp: smtpLeg_net testSmtpConnection_def Let_def)

lemma testConnection_verify:
  assumes "SmtpVerify opts \<in> set (snd (testConnection providers production w b))"
  shows "\<exists>fs. resolveSettings providers b = Inr fs \<and>
           o_port opts = finalSmtpPort fs \<and> o_secure opts = (finalSmtpPort fs = JNum 465)"
proof (cases "resolveSettings providers b")
  case (Inl e)
  with assms show ?thesis by (simp add: testConnection_def)
next
  case (Inr fs)
  from assms have
    "o_port opts = finalSmtpPort fs \<and> o_secure opts = (finalSmtpPort fs = JNum 465)"
    unfolding testConnection_def Inr Let_def
    by (auto split: if_splits promise.splits dest!: smtpLeg_verify)
  with Inr show ?thesis by simp
qed

text \<open>
  C10: the \<open>secure\<close> flag given to the transport is true exactly when the SMTP port is the
  number 465, in \<open>testSmtpConnection\<close> and in \<open>sendEmail\<close>; so it is for every SMTP check
  of a connection test, whatever the provider table says, and for an address of the
  directory the check goes to port 587 with \<open>secure\<close> false.
\<close>

theorem smtp_secure_iff_465:
  "o_secure (fst (testSmtpConnection production vf a)) = (smtpPort a = JNum 465)
   \<and> o_secure (fst (sendEmail production sendMail a to subject text)) = (smtpPort a = JNum 465)
   \<and> (\<forall>opts. SmtpVerify opts \<in> set (snd (testConnection providers production w b)) \<longrightarrow>
         o_secure opts = (o_port opts = JNum 465))
   \<and> (\<forall>p opts. getProviderSettings PROVIDERS (b_email b) = Inr (Some p) \<longrightarrow>
         SmtpVerify opts \<in> set (snd (testConnection PROVIDERS production w b)) \<longrightarrow>
         o_port opts = JNum 587 \<and> \<not> o_secure opts)"
proof (intro conjI allI impI)
  show "o_secure (fst (testSmtpConnection production vf a)) = (smtpPort a = JNum 465)"
    by (simp add: testSmtpConnection_def Let_def)
  show "o_secure (fst (sendEmail production sendMail a to subject text)) = (smtpPort a = JNum 465)"
    by (simp add: sendEmail_def Let_def)
next
  fix opts
  assume "SmtpVerify opts \<in> set (snd (testConnection providers production w b))"
  from testConnection_verify [OF this] show "o_secure opts = (o_port opts = JNum 465)"
    by auto
next
  fix p opts
  assume p: "getProviderSettings PROVIDERS (b_email b) = Inr (Some p)"
    and v: "SmtpVerify opts \<in> set (snd (testConnection PROVIDERS production w b))"
  from testConnection_verify [OF v] obtain fs where
    fs: "resolveSettings PROVIDERS b = Inr fs" "o_port opts = finalSmtpPort fs"
        "o_secure opts = (finalSmtpPort fs = JNum 465)"
    by blast
  from getProviderSettings_member [OF p] obtain key where "(key, p) \<in> set PROVIDERS" ..
  with fs(1) p have "finalSmtpPort fs = JNum 587"
    by (auto simp: resolveSettings_def split: option.splits dest: PROVIDERS_smtp_587)
  with fs show "o_port opts = JNum 587" and "\<not> o_secure opts" by simp_all
qed

text \<open>
  The witness of C10: a Gmail address, with SMTP port 465 given by hand, is checked on port
  587 without TLS from the start.
\<close>

theorem smtp_secure_iff_465_witness:
  "getProviderSettings PROVIDERS (b_email gmailOverridden) =
     Inr (Some \<lparr>profileName = ''Gmail'',
        imap = Some \<lparr>host = ''imap.gmail.com'', port = 993, secure = True\<rparr>,
        pop3 = Some \<lparr>host = ''pop.gmail.com'', port = 995, secure = True\<rparr>,
        smtp = Some \<lparr>host = ''smtp.gmail.com'', port = 587, secure = False\<rparr>,
        requiresAppPassword = True,
        authURL = Some ''https://myaccount.google.com/apppasswords''\<rparr>)
   \<and> snd (testConnection PROVIDERS True imapRefuses gmailOverridden) =
       [Imap (Connect (JStr ''imap.gmail.com'') (JNum 993)),
        SmtpVerify \<lparr>o_host = JStr ''smtp.gmail.com'', o_port = JNum 587, o_secure = False,
                    o_user = ''me@GMAIL.com'', o_pass = ''secret'',
                    o_rejectUnauthorized = True\<rparr>]
   \<and> b_smtpPort gmailOverridden = JNum 465"
proof -
  have lower: "toLowerCase ''GMAIL.com'' = ''gmail.com''"
    by code_simp
  have g: "getProviderSettings PROVIDERS (b_email gmailOverridden) =
     Inr (Some \<lparr>profileName = ''Gmail'',
        imap = Some \<lparr>host = ''imap.gmail.com'', port = 993, secure = True\<rparr>,
        pop3 = Some \<lparr>host = ''pop.gmail.com'', port = 995, secure = True\<rparr>,
        smtp = Some \<lparr>host = ''smtp.gmail.com'', port = 587, secure = False\<rparr>,
        requiresAppPassword = True,
        authURL = Some ''https://myaccount.google.com/apppasswords''\<rparr>)"
    by (simp add: getProviderSettings_def gmailOverridden_def lower PROVIDERS_def
        providerMatches_def hostMatches_def Let_def)
  have fields: "b_email gmailOverridden = ''me@GMAIL.com''" "b_password gmailOverridden = ''secret''"
    "b_fetchProtocol gmailOverridden = Some ''imap''" "b_smtpPort gmailOverridden = JNum 465"
    by (simp_all add: gmailOverridden_def)
  have net: "snd (testConnection PROVIDERS True imapRefuses gmailOverridden) =
       [Imap (Connect (JStr ''imap.gmail.com'') (JNum 993)),
        SmtpVerify \<lparr>o_host = JStr ''smtp.gmail.com'', o_port = JNum 587, o_secure = False,
                    o_user = ''me@GMAIL.com'', o_pass = ''secret'',
                    o_rejectUnauthorized = True\<rparr>]"
    by (simp add: testConnection_def resolveSettings_def g [unfolded fields] fields imapRefuses_def
        testImapConnection_def connect_def smtpLeg_def testSmtpConnection_def Let_def)
  show ?thesis
    using smtp_secure_iff_465 [where b = gmailOverridden and production = True
        and w = imapRefuses and providers = PROVIDERS] g net fields
    by simp
qed

section \<open>The connection test\<close>

lemma smtpLeg_report:
  assumes "b_fetchProtocol b = Some key" "key \<noteq> ''success''" "key \<noteq> ''smtp''" "key \<noteq> ''error''"
    and "snd (testSmtpConnection production (verify w)
            \<lparr>s_email = b_email b, s_password = b_password b,
             smtpHost = finalSmtpHost fs, smtpPort = finalSmtpPort fs\<rparr>) = s"
    and "s \<noteq> Pending" and "receive \<noteq> Pending"
    and "errs = legError leg receive" and "fetchResult = resolved receive"
  shows "fst (smtpLeg production w b fs fetchResult errs net) = Json (report key leg receive s)"
proof -
  obtain t where ts: "testSmtpConnection production (verify w)
            \<lparr>s_email = b_email b, s_password = b_password b,
             smtpHost = finalSmtpHost fs, smtpPort = finalSmtpPort fs\<rparr> = (t, s)"
    using assms(5) by (metis prod.collapse)
  show ?thesis
    using assms(1-4,6-9)
    by (cases s; cases receive) (simp_all add: smtpLeg_def ts setProp_report report_def)
qed

lemma receive_then_smtp:
  assumes "b_fetchProtocol b = Some key" "key \<noteq> ''success''" "key \<noteq> ''smtp''" "key \<noteq> ''error''"
    and ts: "testSmtpConnection production (verify w)
            \<lparr>s_email = b_email b, s_password = b_password b,
             smtpHost = finalSmtpHost fs, smtpPort = finalSmtpPort fs\<rparr> = (t, s)"
    and pre: "pre = leg @ '': ''"
  shows "p \<noteq> Pending \<longrightarrow>
     snd (case p of
            Pending \<Rightarrow> (NoResponse, net)
          | Resolved _ \<Rightarrow> smtpLeg production w b fs True [] net
          | Rejected m \<Rightarrow> smtpLeg production w b fs False [pre @ m] net)
       = net @ [SmtpVerify t] \<and>
     (s \<noteq> Pending \<longrightarrow>
        fst (case p of
               Pending \<Rightarrow> (NoResponse, net)
             | Resolved _ \<Rightarrow> smtpLeg production w b fs True [] net
             | Rejected m \<Rightarrow> smtpLeg production w b fs False [pre @ m] net)
          = Json (report key leg p s))"
proof (cases p)
  case Pending
  then show ?thesis by simp
next
  case (Resolved v)
  have "s \<noteq> Pending \<Longrightarrow>
        fst (smtpLeg production w b fs True [] net) = Json (report key leg p s)"
    by (rule smtpLeg_report [OF assms(1-4)]) (simp_all add: ts Resolved)
  with Resolved show ?thesis by (simp add: smtpLeg_net ts)
next
  case (Rejected m)
  have "s \<noteq> Pending \<Longrightarrow>
        fst (smtpLeg production w b fs False [pre @ m] net) = Json (report key leg p s)"
    by (rule smtpLeg_report [OF assms(1-4)]) (simp_all add: ts Rejected pre)
  with Rejected show ?thesis by (simp add: smtpLeg_net ts)
qed

lemma resolve_noImapHost:
  "resolveSettings PROVIDERS imapGiven =
     Inr \<lparr>finalImapHost = JStr ''imap.example.org'', finalImapPort = JNum 993,
          finalPop3Host = JUndefined, finalPop3Port = JUndefined,
          finalSmtpHost = JStr ''smtp.example.org'', finalSmtpPort = JNum 465\<rparr>"
  by (simp add: resolveSettings_def getProviderSettings_def imapGiven_def noImapHost_def
      PROVIDERS_def toLowerCase_def lowerChar_def providerMatches_def hostMatches_def)

text \<open>
  C1, as stated: a request whose receive host cannot be resolved, with a reachable SMTP
  server, is answered with both flags, the send flag true. It is not: the route answers
  with the settings error alone, and sends nothing to any server.
\<close>

theorem testConnection_unresolved_counterexample:
  "testConnection PROVIDERS False imapRefuses noImapHost =
     (Json [(''success'', JBool False), (''error'', JStr MSG_IMAP_MANUAL)], [])"
  by (simp add: testConnection_def resolveSettings_def getProviderSettings_def noImapHost_def
      PROVIDERS_def toLowerCase_def lowerChar_def providerMatches_def hostMatches_def)

text \<open>
  C1, amended: when the receive protocol is IMAP or POP3 and its host and port resolve,
  then once the receive check has settled the SMTP check is made, whatever the receive
  check's outcome, and once that has settled too the answer reports both flags and the
  messages of the legs that failed; when the host or the port of the receive protocol
  does not resolve, the answer is the settings error alone and no server is contacted.
\<close>

theorem testConnection_legs:
  assumes "resolveSettings providers b = Inr fs"
  shows
   "(b_fetchProtocol b = Some ''imap'' \<longrightarrow>
      (let c = testImapConnection
                 \<lparr>i_email = b_email b, i_password = b_password b,
                  imapHost = finalImapHost fs, imapPort = finalImapPort fs\<rparr> (imapEvents w);
           (t, s) = testSmtpConnection production (verify w)
                 \<lparr>s_email = b_email b, s_password = b_password b,
                  smtpHost = finalSmtpHost fs, smtpPort = finalSmtpPort fs\<rparr>
       in if truthy (finalImapHost fs) \<and> truthy (finalImapPort fs)
          then promise c \<noteq> Pending \<longrightarrow>
                 snd (testConnection providers production w b) = map Imap (calls c) @ [SmtpVerify t] \<and>
                 (s \<noteq> Pending \<longrightarrow>
                    fst (testConnection providers production w b)
                      = Json (report ''imap'' ''IMAP'' (promise c) s))
          else testConnection providers production w b
                 = (Json [(''success'', JBool False), (''error'', JStr MSG_IMAP_MANUAL)], [])))
    \<and>
    (b_fetchProtocol b = Some ''pop3'' \<longrightarrow>
      (let c = testPop3Connection
                 \<lparr>q_email = b_email b, q_password = b_password b,
                  pop3Host = finalPop3Host fs, pop3Port = finalPop3Port fs\<rparr> (pop3Events w);
           (t, s) = testSmtpConnection production (verify w)
                 \<lparr>s_email = b_email b, s_password = b_password b,
                  smtpHost = finalSmtpHost fs, smtpPort = finalSmtpPort fs\<rparr>
       in if truthy (finalPop3Host fs) \<and> truthy (finalPop3Port fs)
          then ppromise c \<noteq> Pending \<longrightarrow>
                 snd (testConnection providers production w b) = map Pop3 (pcalls c) @ [SmtpVerify t] \<and>
                 (s \<noteq> Pending \<longrightarrow>
                    fst (testConnection providers production w b)
                      = Json (report ''pop3'' ''POP3'' (ppromise c) s))
          else testConnection providers production w b
                 = (Json [(''success'', JBool False), (''error'', JStr MSG_POP3_MANUAL)], [])))"
proof (intro conjI impI)
  obtain t s where ts: "testSmtpConnection production (verify w)
                 \<lparr>s_email = b_email b, s_password = b_password b,
                  smtpHost = finalSmtpHost fs, smtpPort = finalSmtpPort fs\<rparr> = (t, s)"
    by (cases "testSmtpConnection production (verify w)
                 \<lparr>s_email = b_email b, s_password = b_password b,
                  smtpHost = finalSmtpHost fs, smtpPort = finalSmtpPort fs\<rparr>")
  {
    assume proto: "b_fetchProtocol b = Some ''imap''"
    define c where "c = testImapConnection
                 \<lparr>i_email = b_email b, i_password = b_password b,
                  imapHost = finalImapHost fs, imapPort = finalImapPort fs\<rparr> (imapEvents w)"
    have "if truthy (finalImapHost fs) \<and> truthy (finalImapPort fs)
          then promise c \<noteq> Pending \<longrightarrow>
                 snd (testConnection providers production w b) = map Imap (calls c) @ [SmtpVerify t] \<and>
                 (s \<noteq> Pending \<longrightarrow>
                    fst (testConnection providers production w b)
                      = Json (report ''imap'' ''IMAP'' (promise c) s))
          else testConnection providers production w b
                 = (Json [(''success'', JBool False), (''error'', JStr MSG_IMAP_MANUAL)], [])"
    proof (cases "truthy (finalImapHost fs) \<and> truthy (finalImapPort fs)")
      case False
      with assms proto show ?thesis
        by (auto simp: testConnection_def)
    next
      case True
      have "testConnection providers production w b =
          (case promise c of
             Pending \<Rightarrow> (NoResponse, map Imap (calls c))
           | Resolved _ \<Rightarrow> smtpLeg production w b fs True [] (map Imap (calls c))
           | Rejected m \<Rightarrow>
               smtpLeg production w b fs False [''IMAP: '' @ m] (map Imap (calls c)))"
        unfolding c_def using assms proto True by (simp add: testConnection_def Let_def)
      with True receive_then_smtp [OF proto _ _ _ ts, of "''IMAP: ''" "''IMAP''" "promise c" "map Imap (calls c)"]
      show ?thesis by simp
    qed
    then show "let c = testImapConnection
                 \<lparr>i_email = b_email b, i_password = b_password b,
                  imapHost = finalImapHost fs, imapPort = finalImapPort fs\<rparr> (imapEvents w);
           (t, s) = testSmtpConnection production (verify w)
                 \<lparr>s_email = b_email b, s_password = b_password b,
                  smtpHost = finalSmtpHost fs, smtpPort = finalSmtpPort fs\<rparr>
       in if truthy (finalImapHost fs) \<and> truthy (finalImapPort fs)
          then promise c \<noteq> Pending \<longrightarrow>
                 snd (testConnection providers production w b) = map Imap (calls c) @ [SmtpVerify t] \<and>
                 (s \<noteq> Pending \<longrightarrow>
                    fst (testConnection providers production w b)
                      = Json (report ''imap'' ''IMAP'' (promise c) s))
          else testConnection providers production w b
                 = (Json [(''success'', JBool False), (''error'', JStr MSG_IMAP_MANUAL)], [])"
      unfolding Let_def c_def ts by simp
  }
  {
    assume proto: "b_fetchProtocol b = Some ''pop3''"
    define c where "c = testPop3Connection
                 \<lparr>q_email = b_email b, q_password = b_password b,
                  pop3Host = finalPop3Host fs, pop3Port = finalPop3Port fs\<rparr> (pop3Events w)"
    have "if truthy (finalPop3Host fs) \<and> truthy (finalPop3Port fs)
          then ppromise c \<noteq> Pending \<longrightarrow>
                 snd (testConnection providers production w b) = map Pop3 (pcalls c) @ [SmtpVerify t] \<and>
                 (s \<noteq> Pending \<longrightarrow>
                    fst (testConnection providers production w b)
                      = Json (report ''pop3'' ''POP3'' (ppromise c) s))
          else testConnection providers production w b
                 = (Json [(''success'', JBool False), (''error'', JStr MSG_POP3_MANUAL)], [])"
    proof (cases "truthy (finalPop3Host fs) \<and> truthy (finalPop3Port fs)")
      case False
      with assms proto show ?thesis
        by (auto simp: testConnection_def)
    next
      case True
      have "testConnection providers production w b =
          (case ppromise c of
             Pending \<Rightarrow> (NoResponse, map Pop3 (pcalls c))
           | Resolved _ \<Rightarrow> smtpLeg production w b fs True [] (map Pop3 (pcalls c))
           | Rejected m \<Rightarrow>
               smtpLeg production w b fs False [''POP3: '' @ m] (map Pop3 (pcalls c)))"
        unfolding c_def using assms proto True by (simp add: testConnection_def Let_def)
      with True receive_then_smtp [OF proto _ _ _ ts, of "''POP3: ''" "''POP3''" "ppromise c" "map Pop3 (pcalls c)"]
      show ?thesis by simp
    qed
    then show "let c = testPop3Connection
                 \<lparr>q_email = b_email b, q_password = b_password b,
                  pop3Host = finalPop3Host fs, pop3Port = finalPop3Port fs\<rparr> (pop3Events w);
           (t, s) = testSmtpConnection production (verify w)
                 \<lparr>s_email = b_email b, s_password = b_password b,
                  smtpHost = finalSmtpHost fs, smtpPort = finalSmtpPort fs\<rparr>
       in if truthy (finalPop3Host fs) \<and> truthy (finalPop3Port fs)
          then ppromise c \<noteq> Pending \<longrightarrow>
                 snd (testConnection providers production w b) = map Pop3 (pcalls c) @ [SmtpVerify t] \<and>
                 (s \<noteq> Pending \<longrightarrow>
                    fst (testConnection providers production w b)
                      = Json (report ''pop3'' ''POP3'' (ppromise c) s))
          else testConnection providers production w b
                 = (Json [(''success'', JBool False), (''error'', JStr MSG_POP3_MANUAL)], [])"
      unfolding Let_def c_def ts by simp
  }
qed

text \<open>
  The witness of C1: an IMAP server that refuses the connection and an SMTP server that
  accepts.
\<close>

theorem testConnection_legs_witness:
  "resolveSettings PROVIDERS imapGiven =
     Inr \<lparr>finalImapHost = JStr ''imap.example.org'', finalImapPort = JNum 993,
          finalPop3Host = JUndefined, finalPop3Port = JUndefined,
          finalSmtpHost = JStr ''smtp.example.org'', finalSmtpPort = JNum 465\<rparr>
   \<and> snd (testConnection PROVIDERS False imapRefuses imapGiven) =
       [Imap (Connect (JStr ''imap.example.org'') (JNum 993)),
        SmtpVerify \<lparr>o_host = JStr ''smtp.example.org'', o_port = JNum 465, o_secure = True,
                    o_user = ''user@example.org'', o_pass = ''secret'',
                    o_rejectUnauthorized = False\<rparr>]
   \<and> fst (testConnection PROVIDERS False imapRefuses imapGiven) =
       Json [(''success'', JBool False), (''imap'', JBool False), (''smtp'', JBool True),
             (''error'', JStr ''IMAP: connect ECONNREFUSED'')]"
proof -
  have fields: "b_email imapGiven = ''user@example.org''" "b_password imapGiven = ''secret''"
    "b_fetchProtocol imapGiven = Some ''imap''"
    by (simp_all add: imapGiven_def noImapHost_def)
  show ?thesis
    using testConnection_legs [OF resolve_noImapHost, of imapRefuses False]
    by (simp add: resolve_noImapHost fields imapRefuses_def
        testImapConnection_def connect_def testSmtpConnection_def report_def)
qed

section \<open>Marking messages read\<close>








section \<open>Fetching messages\<close>

text \<open>What holds of the fetch window: an empty mailbox or, over POP3, a count of 0 ends the
  fetch with the empty list and without a retrieval; otherwise IMAP asks for the last
  \<open>min count total\<close> messages.\<close>

lemma imap_empty_mailbox:
  "fetchImapStep arraySort a st (OpenBoxDone (Inr 0)) =
     st\<lparr>fpromise := settle (fpromise st) (Resolved []), fcalls := fcalls st @ [End]\<rparr>"
  by simp

lemma imap_window:
  "0 < boxTotal \<Longrightarrow> 0 < count a \<Longrightarrow>
   fcalls (fetchImapStep arraySort a st (OpenBoxDone (Inr boxTotal))) =
     fcalls st @ [SeqFetch (boxTotal - min (count a) boxTotal + 1) boxTotal]"
  by (simp add: Let_def max_def min_def)

lemma pop3_empty_window:
  "min msgCount (q_count a) = 0 \<Longrightarrow>
   fetchPop3Step a st (StatDone (Inr msgCount)) =
     st\<lparr>qcalls := qcalls st @ [Quit], qpromise := settle (qpromise st) (Resolved [])\<rparr>"
  by (simp add: Let_def)

text \<open>
  C4: the fetched list is to be sorted by date, newest first, over IMAP and over POP3.
  \<open>fetchPop3Emails\<close> does not sort: it returns the messages in the order their parsing
  ended. Here message 1 (dated 1000) and message 2 (dated 2000) come back oldest first.
\<close>

theorem pop3_result_in_arrival_order:
  "qpromise (fetchPop3Emails (pop3Box 2)
      [PConnect, LoginDone None, StatDone (Inr 2),
       RetrDone 1 (Inr ''raw 1''), ParseDone 1 (Inr (mailAt 1000)),
       RetrDone 2 (Inr ''raw 2''), ParseDone 2 (Inr (mailAt 2000))])
   = Resolved
      [\<lparr>pe_id = 1, pe_from = ''a@example.org'', pe_subject = ''hello'',
        pe_date = DateShown 1000, pe_body = Some ''text''\<rparr>,
       \<lparr>pe_id = 2, pe_from = ''a@example.org'', pe_subject = ''hello'',
        pe_date = DateShown 2000, pe_body = Some ''text''\<rparr>]"
  by (simp add: fetchPop3Emails_def pop3Box_def mailAt_def fromText_def subjectText_def
      dateText_def bodyText_def Let_def)

text \<open>
  C5: a POP3 fetch is to resolve once every requested message has been attempted, failed
  ones included. It does not. A failed retrieval is counted, but the count is compared
  with \<open>fetchCount\<close> only after a message has been parsed; a failed parse is not counted at
  all. In both runs below the one requested message has been attempted and the promise
  is pending, with no \<open>quit\<close> sent.
\<close>

theorem pop3_failures_leave_pending:
  "(let st = fetchPop3Emails (pop3Box 1)
       [PConnect, LoginDone None, StatDone (Inr 1), RetrDone 1 (Inl ''-ERR no such message'')]
    in qpromise st = Pending \<and> fetchCount st = Some 1 \<and> fetched st = 1 \<and>
       qcalls st = [PConnectCall (JStr ''pop.example.org'') (JNum 995),
                    Login ''user@example.org'' ''secret'', Stat, Retr 1] \<and>
       qlogs st = [LOG_RETR @ ''-ERR no such message''])
   \<and>
   (let st = fetchPop3Emails (pop3Box 1)
       [PConnect, LoginDone None, StatDone (Inr 1), RetrDone 1 (Inr ''raw''),
        ParseDone 1 (Inl ''bad MIME'')]
    in qpromise st = Pending \<and> fetchCount st = Some 1 \<and> fetched st = 0 \<and>
       qcalls st = [PConnectCall (JStr ''pop.example.org'') (JNum 995),
                    Login ''user@example.org'' ''secret'', Stat, Retr 1] \<and>
       qlogs st = [LOG_PARSE @ ''bad MIME''])"
  by (simp add: fetchPop3Emails_def pop3Box_def Let_def)

text \<open>
  C6: with \<open>count = 0\<close> no fetch is to be issued and the result is to be empty. Over IMAP,
  with 5 messages in the mailbox, the code computes the window \<open>6:5\<close> and issues the
  fetch; and a server that answers that range with message 5 makes the result one entry
  long.
\<close>

theorem imap_count_zero_fetches:
  "fcalls (fetchImapEmails id (imapBox 0) [Ready, OpenBoxDone (Inr 5)])
     = [Connect (JStr ''imap.example.org'') (JNum 993), OpenBox ''INBOX'' True, SeqFetch 6 5]
   \<and> fpromise (fetchImapEmails id (imapBox 0)
        [Ready, OpenBoxDone (Inr 5), Message 5, Attributes 5 [] 42, FetchEnd])
     = Resolved [emptyData\<lparr>e_unread := Some True, e_uid := Some 42\<rparr>]"
  by (simp add: fetchImapEmails_def fetchConnect_def imapBox_def)

section \<open>Releasing the connection\<close>

text \<open>What holds: the POP3 connection test sends \<open>quit\<close> whenever it settles its promise, and
  \<open>markAsRead\<close> and \<open>getFolders\<close> end the connection when their last command has
  answered.\<close>

lemma testPop3_quits:
  "ppromise st = Pending \<Longrightarrow> ppromise (testPop3Step a st e) \<noteq> Pending \<Longrightarrow>
   Quit \<in> set (pcalls (testPop3Step a st e))"
  by (cases e) (auto split: option.splits)

lemma addFlags_ends:
  "End \<in> set (calls (markAsReadStep ids st (AddFlagsDone r)))"
  by (simp add: Let_def split: option.splits)

lemma getBoxes_ends:
  "End \<in> set (calls (getFoldersStep st (GetBoxesDone r)))"
  by (simp add: Let_def split: sum.splits)

text \<open>
  C9: every adapter is to release its connection on every path. \<open>markAsRead\<close> and
  \<open>fetchImapEmails\<close> do not when \<open>openBox\<close> fails: the connection is ready, the promise is
  rejected, and \<open>end\<close> is never called.
\<close>

theorem openBox_failure_leaves_connection:
  "(let st = markAsRead imapAccount [7] [Ready, OpenBoxDone (Inl ''Mailbox does not exist'')]
    in promise st = Rejected ''Mailbox does not exist'' \<and>
       calls st = [Connect (JStr ''imap.example.org'') (JNum 993), OpenBox ''INBOX'' False])
   \<and>
   (let st = fetchImapEmails id (imapBox 10) [Ready, OpenBoxDone (Inl ''Mailbox does not exist'')]
    in fpromise st = Rejected ''Mailbox does not exist'' \<and>
       fcalls st = [Connect (JStr ''imap.example.org'') (JNum 993), OpenBox ''INBOX'' True])"
  by (simp add: markAsRead_def connect_def imapAccount_def fetchImapEmails_def
      fetchConnect_def imapBox_def)

end
